theory Spec2Isabelle
  imports Complex_Main "HOL-Library.Sublist" "HOL-Library.AList"
begin

section \<open>Smart Investment Advisor: the rule-based projection engine of \<^verbatim>\<open>app.py\<close>\<close>

text \<open>
  A shallow embedding of the helper functions of \<^verbatim>\<open>src/app.py\<close> (lines 136 to 275) and of
  the computation the main tab runs on a submission (lines 332 to 390).

  Python floats are modelled as \<^typ>\<open>real\<close> numbers: every arithmetic step is exact, decimal
  literals such as \<^verbatim>\<open>0.65\<close> denote the rational they spell, and rounding, overflow, NaN
  and infinities are outside the model. Python integers are \<^typ>\<open>int\<close>. Every exception the
  source can raise is a value of type \<open>error\<close> on the left of a sum.
\<close>

subsection \<open>Errors and Python arithmetic\<close>

datatype error =
    ZeroDivisionError
  | KeyError
  | ConversionError   \<comment> \<open>the TypeError or ValueError of \<^verbatim>\<open>float(v)\<close> on a non-numeric value\<close>
  | ComplexResult     \<comment> \<open>a negative float raised to a fractional power: Python answers with
                         a complex number, which has no counterpart in this model\<close>

text \<open>Sequencing of a computation that may raise: the first error is the result.\<close>

definition and_then :: "error + 'a \<Rightarrow> ('a \<Rightarrow> error + 'b) \<Rightarrow> error + 'b" where
  "and_then r f = (case r of Inl e \<Rightarrow> Inl e | Inr x \<Rightarrow> f x)"

text \<open>
  \<^verbatim>\<open>b ** n\<close> for a float \<open>b\<close> and an integer \<open>n\<close>: zero to a negative power raises
  ZeroDivisionError, every other case is the integer power (the inverse's power for \<open>n < 0\<close>).
\<close>

definition py_pow :: "real \<Rightarrow> int \<Rightarrow> error + real" where
  "py_pow b n = (if b = 0 \<and> n < 0 then Inl ZeroDivisionError else Inr (power_int b n))"

text \<open>\<^verbatim>\<open>a / b\<close> on floats raises on a zero divisor.\<close>

definition py_div :: "real \<Rightarrow> real \<Rightarrow> error + real" where
  "py_div a b = (if b = 0 then Inl ZeroDivisionError else Inr (a / b))"

text \<open>\<^verbatim>\<open>int(x)\<close> truncates a float towards zero.\<close>

definition py_int :: "real \<Rightarrow> int" where
  "py_int x = (if 0 \<le> x then \<lfloor>x\<rfloor> else \<lceil>x\<rceil>)"

subsection \<open>Time value of money (lines 136 to 167)\<close>

definition fv_lump_sum :: "real \<Rightarrow> real \<Rightarrow> int \<Rightarrow> error + real" where
  "fv_lump_sum P r n = and_then (py_pow (1 + r) n) (\<lambda>g. Inr (P * g))"

definition fv_annuity :: "real \<Rightarrow> real \<Rightarrow> int \<Rightarrow> error + real" where
  "fv_annuity PMT r n =
     (if r = 0 then Inr (PMT * of_int n)
      else and_then (py_pow (1 + r) n) (\<lambda>g. and_then (py_div (g - 1) r) (\<lambda>q. Inr (PMT * q))))"

definition annual_to_monthly_rate :: "real \<Rightarrow> error + real" where
  "annual_to_monthly_rate annual_rate =
     (if 1 + annual_rate < 0 then Inl ComplexResult
      else Inr ((1 + annual_rate) powr (1 / 12) - 1))"

definition discount_to_present :: "real \<Rightarrow> real \<Rightarrow> int \<Rightarrow> error + real" where
  "discount_to_present future_value inflation_rate years =
     and_then (py_pow (1 + inflation_rate) years) (\<lambda>g. py_div future_value g)"

definition project_corpus :: "real \<Rightarrow> real \<Rightarrow> real \<Rightarrow> real \<Rightarrow> error + real" where
  "project_corpus current_savings monthly_invest annual_return years =
     (let m = py_int (years * 12) in
      and_then (annual_to_monthly_rate annual_return) (\<lambda>rm.
      and_then (fv_lump_sum current_savings rm m) (\<lambda>fv_current.
      and_then (fv_annuity monthly_invest rm m) (\<lambda>fv_stream.
      Inr (fv_current + fv_stream)))))"

definition project_fd_corpus :: "real \<Rightarrow> real \<Rightarrow> int \<Rightarrow> error + real" where
  "project_fd_corpus princ annual_rate years =
     and_then (py_pow (1 + annual_rate) years) (\<lambda>g. Inr (princ * g))"

text \<open>
  The list comprehension over \<^verbatim>\<open>zip(values, years_list)\<close>: \<^verbatim>\<open>zip\<close> stops at the shorter
  list, and the first element whose discounting raises aborts the comprehension.
\<close>

fun discount_pairs :: "real \<Rightarrow> (real \<times> int) list \<Rightarrow> error + real list" where
  "discount_pairs inflation_rate [] = Inr []"
| "discount_pairs inflation_rate ((v, yr) # ps) =
     and_then (discount_to_present v inflation_rate yr) (\<lambda>d.
     and_then (discount_pairs inflation_rate ps) (\<lambda>ds. Inr (d # ds)))"

definition inflation_adjust_series :: "real list \<Rightarrow> real \<Rightarrow> int list \<Rightarrow> error + real list" where
  "inflation_adjust_series values inflation_rate years_list =
     discount_pairs inflation_rate (zip values years_list)"

subsection \<open>The year-by-year balances (lines 382 to 389)\<close>

text \<open>The inner loop \<^verbatim>\<open>for _ in range(12): bal = bal * (1 + rm) + float(monthly_invest)\<close>.\<close>

fun month_loop :: "nat \<Rightarrow> real \<Rightarrow> real \<Rightarrow> real \<Rightarrow> real" where
  "month_loop 0 rm monthly_invest bal = bal"
| "month_loop (Suc k) rm monthly_invest bal =
     month_loop k rm monthly_invest (bal * (1 + rm) + monthly_invest)"

text \<open>
  The outer loop \<^verbatim>\<open>for year in years\<close>, threading \<^verbatim>\<open>bal\<close> and appending each year's closing
  balance to \<^verbatim>\<open>balances_nominal\<close>.
\<close>

fun year_loop :: "int list \<Rightarrow> real \<Rightarrow> real \<Rightarrow> real \<Rightarrow> real list \<Rightarrow> real list" where
  "year_loop [] rm monthly_invest bal balances_nominal = balances_nominal"
| "year_loop (year # ys) rm monthly_invest bal balances_nominal =
     (let bal' = month_loop 12 rm monthly_invest bal
      in year_loop ys rm monthly_invest bal' (balances_nominal @ [bal']))"

text \<open>\<^verbatim>\<open>years = list(range(1, horizon + 1))\<close> is the integer interval \<open>[1..horizon]\<close>.\<close>

definition yearly_balances :: "real \<Rightarrow> real \<Rightarrow> real \<Rightarrow> int \<Rightarrow> error + real list" where
  "yearly_balances current_savings monthly_invest exp_ret horizon =
     and_then (annual_to_monthly_rate exp_ret) (\<lambda>rm.
     Inr (year_loop [1..horizon] rm monthly_invest current_savings []))"

subsection \<open>Allocation tables and risk inference (lines 170 to 201)\<close>

text \<open>
  A risk level is the string the source passes around. A dict literal is an association list
  in the order the source writes it (the pie chart reads \<^verbatim>\<open>alloc.keys()\<close> and
  \<^verbatim>\<open>alloc.values()\<close> in that order).
\<close>

definition suggest_allocation_from_risk :: "string \<Rightarrow> (string \<times> real) list" where
  "suggest_allocation_from_risk risk_level =
     (if risk_level = ''Low'' then
        [(''Equity'', 0.20), (''Debt'', 0.65), (''Gold'', 0.10), (''Cash'', 0.05)]
      else if risk_level = ''High'' then
        [(''Equity'', 0.75), (''Debt'', 0.15), (''Gold'', 0.05), (''Cash'', 0.05)]
      else
        [(''Equity'', 0.55), (''Debt'', 0.30), (''Gold'', 0.10), (''Cash'', 0.05)])"

text \<open>Indexing the dict literal with a key it does not hold raises KeyError.\<close>

definition expected_return_from_risk :: "string \<Rightarrow> error + real" where
  "expected_return_from_risk risk_level =
     (case map_of [(''Low'', 0.07), (''Medium'', 0.11), (''High'', 0.14)] risk_level of
        None \<Rightarrow> Inl KeyError
      | Some v \<Rightarrow> Inr v)"

text \<open>
  \<^verbatim>\<open>infer_risk\<close>: the score is a local variable updated by four \<^verbatim>\<open>if\<close> statements in
  turn. The division cannot raise: it is reached only for \<open>income > 0\<close>, and its divisor is
  \<open>max income 1 \<ge> 1\<close>.
\<close>

definition infer_risk :: "int \<Rightarrow> int \<Rightarrow> string list \<Rightarrow> real \<Rightarrow> real \<Rightarrow> string \<times> int" where
  "infer_risk age horizon goals monthly_invest income =
     (let savings_rate = (if income \<le> 0 then 0 else monthly_invest / max income 1);
          long_horizon = (15 \<le> horizon);
          many_growth_goals = list_ex (\<lambda>g. g \<in> set goals) [''Wealth Creation'', ''Retirement''];
          score = 0;
          score = (if age < 35 then score + 2 else if age \<le> 50 then score + 1 else score);
          score = (if long_horizon then score + 2 else score);
          score = (if 0.3 \<le> savings_rate then score + 1 else score);
          score = (if many_growth_goals then score + 1 else score)
      in if score \<le> 2 then (''Low'', score)
         else if score \<le> 4 then (''Medium'', score)
         else (''High'', score))"

text \<open>
  The classifier as the specification words it (section 4.1), for comparison with
  \<^verbatim>\<open>infer_risk\<close>: the savings rate is the monthly investment divided by
  \<open>max monthlyIncome 1\<close> for every income, with no separate case for an income \<open>\<le> 0\<close>.
\<close>

definition classify_spec :: "int \<Rightarrow> int \<Rightarrow> string list \<Rightarrow> real \<Rightarrow> real \<Rightarrow> string \<times> int" where
  "classify_spec age horizonYears goals monthlyInvestment monthlyIncome =
     (let score = (if age < 35 then 2 else if 35 \<le> age \<and> age \<le> 50 then 1 else 0)
                + (if 15 \<le> horizonYears then 2 else 0)
                + (if 0.3 \<le> monthlyInvestment / max monthlyIncome 1 then 1 else 0)
                + (if ''Wealth Creation'' \<in> set goals \<or> ''Retirement'' \<in> set goals then 1 else 0)
      in (if score \<le> 2 then ''Low'' else if 3 \<le> score \<and> score \<le> 4 then ''Medium'' else ''High'',
          score))"

subsection \<open>Normalising an allocation (lines 204 to 215)\<close>

text \<open>
  The values of the two dicts are arbitrary Python objects. \<open>Num x\<close> stands for every value
  that \<^verbatim>\<open>float()\<close> converts to \<open>x\<close>, \<open>NonNum\<close> for every value on which \<^verbatim>\<open>float()\<close> raises
  (\<^verbatim>\<open>None\<close>, a list, a string that is not a number).
\<close>

datatype pyval = Num real | NonNum

definition py_float :: "pyval \<Rightarrow> error + real" where
  "py_float v = (case v of Num x \<Rightarrow> Inr x | NonNum \<Rightarrow> Inl ConversionError)"

text \<open>\<^verbatim>\<open>d.get(k, fallback)\<close>.\<close>

definition dict_get :: "('k \<rightharpoonup> 'v) \<Rightarrow> 'k \<Rightarrow> 'v \<Rightarrow> 'v" where
  "dict_get d k fallback = (case d k of None \<Rightarrow> fallback | Some v \<Rightarrow> v)"

text \<open>
  The body of the loop for one key: the \<^verbatim>\<open>try\<close> converts the raw entry (the default's entry
  when the key is missing); when that raises, the \<^verbatim>\<open>except\<close> converts the default's entry,
  and an exception there is not caught.
\<close>

definition coerce_entry :: "(string \<rightharpoonup> pyval) \<Rightarrow> (string \<rightharpoonup> pyval) \<Rightarrow> string \<Rightarrow> error + real" where
  "coerce_entry raw_alloc default_alloc k =
     (case py_float (dict_get raw_alloc k (dict_get default_alloc k (Num 0.0))) of
        Inr x \<Rightarrow> Inr x
      | Inl e \<Rightarrow> py_float (dict_get default_alloc k (Num 0.0)))"

text \<open>
  \<^verbatim>\<open>for k in keys: out[k] = ...\<close>; the dict \<^verbatim>\<open>out\<close> is an association list in insertion
  order, and \<open>AList.update\<close> is the dict's item assignment.
\<close>

fun coerce_loop ::
  "string list \<Rightarrow> (string \<rightharpoonup> pyval) \<Rightarrow> (string \<rightharpoonup> pyval) \<Rightarrow> (string \<times> real) list
     \<Rightarrow> error + (string \<times> real) list" where
  "coerce_loop [] raw_alloc default_alloc out = Inr out"
| "coerce_loop (k # ks) raw_alloc default_alloc out =
     and_then (coerce_entry raw_alloc default_alloc k) (\<lambda>x.
     coerce_loop ks raw_alloc default_alloc (AList.update k x out))"

text \<open>
  The result is either the default dict itself or the dict of the rescaled floats, so it is
  a dict of Python values. \<^verbatim>\<open>sum(out.values())\<close> adds from the left, starting at 0.
\<close>

definition normalize_allocation ::
  "(string \<rightharpoonup> pyval) \<Rightarrow> (string \<rightharpoonup> pyval) \<Rightarrow> error + (string \<rightharpoonup> pyval)" where
  "normalize_allocation raw_alloc default_alloc =
     (let keys = [''Equity'', ''Debt'', ''Gold'', ''Cash''] in
      and_then (coerce_loop keys raw_alloc default_alloc []) (\<lambda>out.
      let s = foldl (+) 0 (map snd out) in
      if s \<le> 0 then Inr default_alloc
      else Inr (map_of (map (\<lambda>(k, v). (k, Num (v / s))) out))))"

subsection \<open>Text formatting of the fallback note\<close>

text \<open>
  A Python string is modelled as a list of bytes in UTF-8. \<open>digits\<close> is the decimal numeral of
  a natural number, \<open>str_int\<close> the text an f-string puts for an integer (\<^verbatim>\<open>{age}\<close>).
\<close>

definition digit_char :: "nat \<Rightarrow> char" where
  "digit_char d = ''0123456789'' ! (d mod 10)"

fun digits :: "nat \<Rightarrow> string" where
  "digits n = (if n < 10 then [digit_char n] else digits (n div 10) @ [digit_char (n mod 10)])"

declare digits.simps [simp del]

definition str_int :: "int \<Rightarrow> string" where
  "str_int i = (if i < 0 then ''-'' @ digits (nat (- i)) else digits (nat i))"

text \<open>
  \<^verbatim>\<open>{x:,.0f}\<close> for an integer \<open>x\<close>: no decimals, and a comma between groups of three digits
  counted from the right.
\<close>

fun grouped :: "nat \<Rightarrow> string" where
  "grouped n =
     (if n < 1000 then digits n
      else grouped (n div 1000)
           @ '','' @ [digit_char (n div 100 mod 10), digit_char (n div 10 mod 10), digit_char (n mod 10)])"

declare grouped.simps [simp del]

definition fmt_comma0 :: "int \<Rightarrow> string" where
  "fmt_comma0 x = (if x < 0 then ''-'' @ grouped (nat (- x)) else grouped (nat x))"

text \<open>
  \<^verbatim>\<open>{x:.1f}\<close> for a float: the nearest number with one decimal, a tie going to the even
  last digit.
\<close>

definition round_half_even :: "real \<Rightarrow> int" where
  "round_half_even y =
     (let f = \<lfloor>y\<rfloor>; d = y - of_int f
      in if d < 1 / 2 then f else if 1 / 2 < d then f + 1 else if even f then f else f + 1)"

definition fmt_1f :: "real \<Rightarrow> string" where
  "fmt_1f x =
     (let q = nat (round_half_even (\<bar>x\<bar> * 10))
      in (if x < 0 then ''-'' else '''') @ digits (q div 10) @ ''.'' @ [digit_char (q mod 10)])"

text \<open>\<^verbatim>\<open>s.lower()\<close>, on the ASCII letters.\<close>

definition lower_char :: "char \<Rightarrow> char" where
  "lower_char c =
     (case map_of (zip ''ABCDEFGHIJKLMNOPQRSTUVWXYZ'' ''abcdefghijklmnopqrstuvwxyz'') c of
        None \<Rightarrow> c
      | Some l \<Rightarrow> l)"

definition lower :: "string \<Rightarrow> string" where
  "lower s = map lower_char s"

text \<open>The rupee sign U+20B9, as its three bytes in UTF-8.\<close>

definition rupee :: string where
  "rupee = [CHR 0xE2, CHR 0x82, CHR 0xB9]"

text \<open>The f-string of lines 369 to 374.\<close>

definition fallback_advice :: "int \<Rightarrow> int \<Rightarrow> int \<Rightarrow> int \<Rightarrow> string \<Rightarrow> real \<Rightarrow> string" where
  "fallback_advice age monthly_invest current_savings horizon inferred_risk exp_ret =
     ''Based on your age ('' @ str_int age @ ''), monthly investment of roughly ''
     @ rupee @ fmt_comma0 monthly_invest @ '', ''
     @ ''current savings of about '' @ rupee @ fmt_comma0 current_savings
     @ '', and a '' @ str_int horizon @ ''-year horizon, ''
     @ ''this preview assumes a '' @ lower inferred_risk @ '' risk profile with an expected CAGR ''
     @ ''of around '' @ fmt_1f (exp_ret * 100)
     @ ''% per year. Use this purely as research, not as a guarantee.''"

subsection \<open>The narrator call (lines 116 to 123 and 223 to 275)\<close>

text \<open>
  The key is the environment variable when it is set and not empty, else the secret; a
  missing secret (the lookup raises, and the exception is caught) is \<open>None\<close>.
\<close>

definition get_openrouter_key :: "string option \<Rightarrow> string option \<Rightarrow> string option" where
  "get_openrouter_key env_key secret =
     (case env_key of
        Some k \<Rightarrow> if k \<noteq> [] then Some k else secret
      | None \<Rightarrow> secret)"

text \<open>
  What one HTTP request comes to: \<open>Raised\<close> when \<^verbatim>\<open>requests.post\<close> raises (no network, a
  timeout), else the status code and the text at \<^verbatim>\<open>data["choices"][0]["message"]["content"]\<close>,
  which is \<open>None\<close> when decoding the body or indexing it raises. The network is a function from
  the attempt number to its outcome; the request body and the sleep between attempts have no
  part in the result.
\<close>

datatype http_outcome = Raised | Response int "string option"

fun attempt_loop :: "(nat \<Rightarrow> http_outcome) \<Rightarrow> nat \<Rightarrow> nat \<Rightarrow> string option" where
  "attempt_loop post attempt 0 = None"
| "attempt_loop post attempt (Suc remaining) =
     (case post attempt of
        Raised \<Rightarrow> attempt_loop post (Suc attempt) remaining
      | Response status_code content \<Rightarrow>
          if status_code = 200 then
            (case content of
               Some text \<Rightarrow> Some text
             | None \<Rightarrow> attempt_loop post (Suc attempt) remaining)
          else attempt_loop post (Suc attempt) remaining)"

definition call_llm_with_backoff ::
  "string option \<Rightarrow> string option \<Rightarrow> (nat \<Rightarrow> http_outcome) \<Rightarrow> nat \<Rightarrow> string option" where
  "call_llm_with_backoff env_key secret post max_retries =
     (case get_openrouter_key env_key secret of
        None \<Rightarrow> None
      | Some api_key \<Rightarrow> if api_key = [] then None else attempt_loop post 0 max_retries)"

text \<open>An attempt that does not return a text: an exception, a status other than 200, or a
  body without the text field.\<close>

definition attempt_fails :: "http_outcome \<Rightarrow> bool" where
  "attempt_fails r =
     (case r of Raised \<Rightarrow> True | Response status_code content \<Rightarrow> status_code \<noteq> 200 \<or> content = None)"

subsection \<open>A run of the main tab (lines 332 to 390 and 549 to 562)\<close>

text \<open>
  The values of the form widgets. The number inputs for age, horizon, income, monthly
  investment and current savings are created with integer bounds and hand back integers; the
  two rates are floats.
\<close>

record form_inputs =
  in_age :: int
  in_horizon :: int
  in_income :: int
  in_monthly_invest :: int
  in_current_savings :: int
  in_inflation_rate :: real
  in_fd_rate :: real
  in_selected_goals :: "string list"

text \<open>What a run computes: the advice text and the numbers the cards and charts show.\<close>

record run_result =
  res_advice :: string
  res_inferred_risk :: string
  res_risk_score :: int
  res_alloc :: "(string \<times> real) list"
  res_exp_ret :: real
  res_corpus_port :: real
  res_corpus_fd :: real
  res_real_corpus_port :: real
  res_fd_real :: real
  res_years :: "int list"
  res_balances_nominal :: "real list"
  res_balances_real :: "real list"

text \<open>
  The body of \<^verbatim>\<open>if submitted and selected_goals:\<close>. Without a submission or without a goal
  nothing is computed (\<open>Inr None\<close>). An empty advice text counts as none
  (\<^verbatim>\<open>if not llm_advice\<close>).
\<close>

definition tab_main_run ::
  "bool \<Rightarrow> form_inputs \<Rightarrow> string option \<Rightarrow> string option \<Rightarrow> (nat \<Rightarrow> http_outcome)
     \<Rightarrow> error + run_result option" where
  "tab_main_run submitted inp env_key secret post =
     (if \<not> (submitted \<and> in_selected_goals inp \<noteq> []) then Inr None
      else
        let (rule_risk, risk_score) =
              infer_risk (in_age inp) (in_horizon inp) (in_selected_goals inp)
                (of_int (in_monthly_invest inp)) (of_int (in_income inp));
            base_alloc = suggest_allocation_from_risk rule_risk
        in
        and_then (expected_return_from_risk rule_risk) (\<lambda>base_exp_ret.
        let llm_advice = call_llm_with_backoff env_key secret post 2;
            inferred_risk = rule_risk;
            exp_ret = base_exp_ret;
            alloc = base_alloc;
            fallback = fallback_advice (in_age inp) (in_monthly_invest inp)
                         (in_current_savings inp) (in_horizon inp) inferred_risk exp_ret;
            advice = (case llm_advice of
                        None \<Rightarrow> fallback
                      | Some text \<Rightarrow> if text = [] then fallback else text)
        in
        and_then (project_corpus (of_int (in_current_savings inp))
                    (of_int (in_monthly_invest inp)) exp_ret (of_int (in_horizon inp)))
          (\<lambda>corpus_port.
        and_then (project_fd_corpus
                    (of_int (in_current_savings inp + in_monthly_invest inp * 12 * in_horizon inp))
                    (in_fd_rate inp) (in_horizon inp))
          (\<lambda>corpus_fd.
        and_then (discount_to_present corpus_port (in_inflation_rate inp) (in_horizon inp))
          (\<lambda>real_corpus_port.
        let years = [1..in_horizon inp] in
        and_then (yearly_balances (of_int (in_current_savings inp))
                    (of_int (in_monthly_invest inp)) exp_ret (in_horizon inp))
          (\<lambda>balances_nominal.
        and_then (inflation_adjust_series balances_nominal (in_inflation_rate inp) years)
          (\<lambda>balances_real.
        and_then (discount_to_present corpus_fd (in_inflation_rate inp) (in_horizon inp))
          (\<lambda>fd_real.
        Inr (Some \<lparr> res_advice = advice, res_inferred_risk = inferred_risk,
                    res_risk_score = risk_score, res_alloc = alloc, res_exp_ret = exp_ret,
                    res_corpus_port = corpus_port, res_corpus_fd = corpus_fd,
                    res_real_corpus_port = real_corpus_port, res_fd_real = fd_real,
                    res_years = years, res_balances_nominal = balances_nominal,
                    res_balances_real = balances_real \<rparr>)))))))))"

text \<open>
  The values the form shows before the user changes anything: the \<^verbatim>\<open>value=\<close> arguments of
  the number inputs (lines 296 to 326) and the default of the goal selector.
\<close>

definition default_form :: form_inputs where
  "default_form =
     \<lparr> in_age = 30, in_horizon = 15, in_income = 100000, in_monthly_invest = 20000,
       in_current_savings = 0, in_inflation_rate = 5.0 / 100.0, in_fd_rate = 7.0 / 100.0,
       in_selected_goals = [''Wealth Creation''] \<rparr>"

section \<open>Properties\<close>

subsection \<open>Helper facts\<close>

lemma and_then_Inr [simp]: "and_then (Inr x) f = f x"
  by (simp add: and_then_def)

lemma and_then_Inl [simp]: "and_then (Inl e) f = Inl e"
  by (simp add: and_then_def)

lemma py_pow_nonneg: "0 \<le> n \<Longrightarrow> py_pow b n = Inr (b ^ nat n)"
  by (simp add: py_pow_def power_int_def)

lemma py_pow_nonzero: "b \<noteq> 0 \<Longrightarrow> py_pow b n = Inr (power_int b n)"
  by (simp add: py_pow_def)

lemma py_int_of_int: "py_int (of_int y * 12) = y * 12"
proof -
  have "(of_int y * 12 :: real) = of_int (y * 12)" by simp
  then show ?thesis unfolding py_int_def by (simp only: floor_of_int ceiling_of_int if_cancel)
qed

lemma monthly_rate_power:
  assumes "0 \<le> 1 + (a::real)"
  shows "(1 + ((1 + a) powr (1 / 12) - 1)) ^ 12 = 1 + a"
proof (cases "1 + a = 0")
  case True
  then show ?thesis by simp
next
  case False
  with assms have pos: "0 < 1 + a" by simp
  have "0 < (1 + a) powr (1 / 12)" using pos by simp
  then have "((1 + a) powr (1 / 12)) ^ 12 = ((1 + a) powr (1 / 12)) powr real 12"
    by (rule powr_realpow [symmetric])
  also have "\<dots> = (1 + a) powr ((1 / 12) * real 12)"
    by (rule powr_powr)
  also have "\<dots> = 1 + a" using pos by simp
  finally show ?thesis by simp
qed

subsection \<open>The monthly simulation and the closed form\<close>

text \<open>
  After \<open>k\<close> months the simulated balance is the lump-sum future value of the opening
  balance plus the annuity future value of the contributions, with the zero-rate branch of
  \<^verbatim>\<open>fv_annuity\<close>.
\<close>

lemma month_loop_closed:
  "month_loop k rm mi bal =
     bal * (1 + rm) ^ k + (if rm = 0 then mi * of_nat k else mi * (((1 + rm) ^ k - 1) / rm))"
proof (induction k arbitrary: bal)
  case 0
  show ?case by simp
next
  case (Suc k)
  show ?case
  proof (cases "rm = 0")
    case True
    then show ?thesis using Suc.IH [of "bal * (1 + rm) + mi"] by (simp add: algebra_simps)
  next
    case False
    then show ?thesis using Suc.IH [of "bal * (1 + rm) + mi"] by (simp add: field_simps)
  qed
qed

lemma month_loop_add:
  "month_loop (j + k) rm mi bal = month_loop k rm mi (month_loop j rm mi bal)"
  by (induction j arbitrary: bal) simp_all

lemma year_loop_length:
  "length (year_loop ys rm mi bal acc) = length acc + length ys"
  by (induction ys arbitrary: bal acc) (simp_all add: Let_def)

lemma year_loop_last:
  "ys \<noteq> [] \<Longrightarrow> last (year_loop ys rm mi bal acc) = month_loop (12 * length ys) rm mi bal"
proof (induction ys arbitrary: bal acc)
  case Nil
  then show ?case by simp
next
  case (Cons y ys)
  show ?case
  proof (cases "ys = []")
    case True
    then show ?thesis by (simp add: Let_def)
  next
    case False
    have "month_loop (12 + 12 * length ys) rm mi bal
            = month_loop (12 * length ys) rm mi (month_loop 12 rm mi bal)"
      by (rule month_loop_add)
    with False Cons.IH show ?thesis by (simp add: Let_def)
  qed
qed

text \<open>
  Claim C1. For an annual return \<open>\<ge> 0\<close> and an integer number of years \<open>\<ge> 1\<close> (and any
  current savings and monthly investment, in particular non-negative ones) the year-by-year
  simulation of the main tab returns exactly \<open>years\<close> balances, and the last of them is the
  value \<^verbatim>\<open>project_corpus\<close> computes from the closed-form lump-sum and annuity formulas over
  \<open>years * 12\<close> months. Over the reals the two agree exactly, hence within any tolerance.
\<close>

theorem trajectory_agrees_with_closed_form:
  assumes "0 \<le> annual_return" and "1 \<le> years"
  shows "\<exists>balances. yearly_balances current_savings monthly_invest annual_return years = Inr balances
           \<and> length balances = nat years
           \<and> project_corpus current_savings monthly_invest annual_return (of_int years)
               = Inr (last balances)"
proof -
  define rm where "rm = (1 + annual_return) powr (1 / 12) - 1"
  define bs where "bs = year_loop [1..years] rm monthly_invest current_savings []"
  have rate: "annual_to_monthly_rate annual_return = Inr rm"
    using assms(1) by (simp add: annual_to_monthly_rate_def rm_def)
  have run: "yearly_balances current_savings monthly_invest annual_return years = Inr bs"
    by (simp add: yearly_balances_def rate bs_def)
  have len: "length bs = nat years"
    by (simp add: bs_def year_loop_length)
  have ne: "[1..years] \<noteq> []" using assms(2) by (simp add: upto_Nil)
  have m: "12 * length [1..years] = nat (years * 12)" using assms(2) by simp
  have "last bs = month_loop (nat (years * 12)) rm monthly_invest current_savings"
    unfolding bs_def using year_loop_last [OF ne] m by simp
  also have "\<dots> = current_savings * (1 + rm) ^ nat (years * 12)
             + (if rm = 0 then monthly_invest * of_nat (nat (years * 12))
                else monthly_invest * (((1 + rm) ^ nat (years * 12) - 1) / rm))"
    by (rule month_loop_closed)
  finally have lst: "last bs = current_savings * (1 + rm) ^ nat (years * 12)
             + (if rm = 0 then monthly_invest * of_nat (nat (years * 12))
                else monthly_invest * (((1 + rm) ^ nat (years * 12) - 1) / rm))" .
  have mge: "0 \<le> years * 12" using assms(2) by simp
  have lump: "fv_lump_sum current_savings rm (years * 12)
                = Inr (current_savings * (1 + rm) ^ nat (years * 12))"
    by (simp add: fv_lump_sum_def py_pow_nonneg [OF mge])
  have ann: "fv_annuity monthly_invest rm (years * 12)
               = Inr (if rm = 0 then monthly_invest * of_nat (nat (years * 12))
                      else monthly_invest * (((1 + rm) ^ nat (years * 12) - 1) / rm))"
    using mge by (simp add: fv_annuity_def py_pow_nonneg [OF mge] py_div_def)
  have "project_corpus current_savings monthly_invest annual_return (of_int years) = Inr (last bs)"
    unfolding project_corpus_def Let_def py_int_of_int rate and_then_Inr lump ann lst ..
  with run len show ?thesis by blast
qed

theorem trajectory_agrees_with_closed_form_witness:
  "(0::real) \<le> 11 / 100 \<and> (1::int) \<le> 15
   \<and> (\<exists>balances. yearly_balances 100000 20000 (11 / 100) 15 = Inr balances
           \<and> length balances = nat 15
           \<and> project_corpus 100000 20000 (11 / 100) (of_int 15) = Inr (last balances))"
  using trajectory_agrees_with_closed_form [of "11 / 100" 15 100000 20000] by simp

subsection \<open>Growth of a lump sum\<close>

text \<open>
  Claim C7, as amended. For a principal \<open>> 0\<close>, a periodic rate \<open>> 0\<close> and period counts
  \<open>0 \<le> n < m\<close>, \<^verbatim>\<open>fv_lump_sum\<close> returns \<open>P * (1 + r) ^ n\<close> and is strictly smaller at \<open>n\<close> than
  at \<open>m\<close>.
\<close>

theorem fv_lump_sum_strictly_increasing:
  assumes "0 < P" and "0 < r" and "0 \<le> n" and "n < m"
  shows "\<exists>a b. fv_lump_sum P r n = Inr a \<and> fv_lump_sum P r m = Inr b
           \<and> a = P * (1 + r) ^ nat n \<and> b = P * (1 + r) ^ nat m \<and> a < b"
proof -
  have m0: "0 \<le> m" using assms(3,4) by simp
  have lt: "nat n < nat m" using assms(3,4) by simp
  have "1 < 1 + r" using assms(2) by simp
  then have "(1 + r) ^ nat n < (1 + r) ^ nat m"
    using lt by (rule power_strict_increasing [rotated])
  then have "P * (1 + r) ^ nat n < P * (1 + r) ^ nat m"
    using assms(1) by simp
  then show ?thesis
    by (simp add: fv_lump_sum_def py_pow_nonneg [OF assms(3)] py_pow_nonneg [OF m0])
qed

theorem fv_lump_sum_strictly_increasing_witness:
  "(0::real) < 1000 \<and> (0::real) < 1 / 100 \<and> (0::int) \<le> 2 \<and> (2::int) < 3
   \<and> (\<exists>a b. fv_lump_sum 1000 (1 / 100) 2 = Inr a \<and> fv_lump_sum 1000 (1 / 100) 3 = Inr b
           \<and> a = 1000 * (1 + 1 / 100) ^ nat 2 \<and> b = 1000 * (1 + 1 / 100) ^ nat 3 \<and> a < b)"
  using fv_lump_sum_strictly_increasing [of 1000 "1 / 100" 2 3] by simp

text \<open>
  The claim as stated puts no condition on the principal. With a principal of zero (the form's
  default for current savings) the future value is zero after any number of periods, so it
  is not strictly increasing.
\<close>

theorem fv_lump_sum_zero_principal_counterexample:
  "(0::real) < 1 / 10 \<and> (0::int) \<le> 0 \<and> (0::int) < 1
   \<and> fv_lump_sum 0 (1 / 10) 0 = Inr 0 \<and> fv_lump_sum 0 (1 / 10) 1 = Inr 0"
  by (simp add: fv_lump_sum_def py_pow_def)

subsection \<open>The monthly rate\<close>

lemma twelfth_power_above_linear:
  assumes "0 < (x::real)"
  shows "1 + 12 * x < (1 + x) ^ 12"
proof -
  have b: "1 + 10 * x \<le> (1 + x) ^ 10"
    using Bernoulli_inequality [of x 10] assms by simp
  have "(1 + x)\<^sup>2 * (1 + 10 * x) \<le> (1 + x)\<^sup>2 * (1 + x) ^ 10"
    using b by (intro mult_left_mono) simp_all
  also have "\<dots> = (1 + x) ^ 12" by (simp add: power_add [symmetric])
  finally have "(1 + x)\<^sup>2 * (1 + 10 * x) \<le> (1 + x) ^ 12" .
  moreover have "1 + 12 * x < (1 + x)\<^sup>2 * (1 + 10 * x)"
  proof -
    have "(1 + x)\<^sup>2 * (1 + 10 * x) = 1 + 12 * x + (21 * x\<^sup>2 + 10 * x ^ 3)"
      by (simp add: power2_eq_square power3_eq_cube algebra_simps)
    moreover have "0 < 21 * x\<^sup>2 + 10 * x ^ 3" using assms by (simp add: add_pos_pos)
    ultimately show ?thesis by simp
  qed
  ultimately show ?thesis by simp
qed

text \<open>
  Claim C8. \<^verbatim>\<open>annual_to_monthly_rate(0.0)\<close> is \<open>0\<close>, and for every \<open>r\<close> in \<open>[0, 1]\<close> the monthly
  rate is \<open>(1 + r) ^ (1/12) - 1\<close>, compounds over twelve months back to \<open>1 + r\<close>, and for
  \<open>r > 0\<close> lies strictly below the simple division \<open>r / 12\<close>.
\<close>

theorem annual_to_monthly_rate_round_trip:
  assumes "0 \<le> r" and "r \<le> 1"
  shows "annual_to_monthly_rate 0 = Inr 0
         \<and> (\<exists>rm. annual_to_monthly_rate r = Inr rm
                \<and> rm = (1 + r) powr (1 / 12) - 1
                \<and> (1 + rm) ^ 12 = 1 + r
                \<and> (if r = 0 then rm = 0 else rm < r / 12))"
proof -
  define rm where "rm = (1 + r) powr (1 / 12) - 1"
  have zero: "annual_to_monthly_rate 0 = Inr 0"
    by (simp add: annual_to_monthly_rate_def)
  have rate: "annual_to_monthly_rate r = Inr rm"
    using assms(1) by (simp add: annual_to_monthly_rate_def rm_def)
  have pw: "(1 + rm) ^ 12 = 1 + r"
    unfolding rm_def using assms(1) by (intro monthly_rate_power) simp
  have cmp: "if r = 0 then rm = 0 else rm < r / 12"
  proof (cases "r = 0")
    case True
    then show ?thesis by (simp add: rm_def)
  next
    case False
    with assms(1) have rpos: "0 < r / 12" by simp
    have "rm < r / 12"
    proof (rule ccontr)
      assume "\<not> rm < r / 12"
      then have le: "r / 12 \<le> rm" by simp
      have "1 + r < (1 + r / 12) ^ 12"
        using twelfth_power_above_linear [OF rpos] by simp
      also have "\<dots> \<le> (1 + rm) ^ 12"
        using le rpos by (intro power_mono) simp_all
      finally show False using pw by simp
    qed
    with False show ?thesis by simp
  qed
  from zero rate pw cmp show ?thesis using rm_def by blast
qed

theorem annual_to_monthly_rate_round_trip_witness:
  "(0::real) \<le> 11 / 100 \<and> (11 / 100 :: real) \<le> 1
   \<and> annual_to_monthly_rate 0 = Inr 0
   \<and> (\<exists>rm. annual_to_monthly_rate (11 / 100) = Inr rm
          \<and> rm = (1 + 11 / 100) powr (1 / 12) - 1
          \<and> (1 + rm) ^ 12 = 1 + 11 / 100
          \<and> (if (11 / 100 :: real) = 0 then rm = 0 else rm < (11 / 100) / 12))"
  using annual_to_monthly_rate_round_trip [of "11 / 100"] by simp

subsection \<open>Inflation adjustment of a series\<close>

lemma discount_pairs_total:
  assumes "1 + inflation_rate \<noteq> 0"
  shows "discount_pairs inflation_rate ps
           = Inr (map (\<lambda>(v, yr). v / power_int (1 + inflation_rate) yr) ps)"
proof (induction ps)
  case Nil
  show ?case by simp
next
  case (Cons p ps)
  obtain v yr where p: "p = (v, yr)" by (cases p)
  have "power_int (1 + inflation_rate) yr \<noteq> 0" using assms by simp
  then have "discount_to_present v inflation_rate yr
               = Inr (v / power_int (1 + inflation_rate) yr)"
    using assms by (simp add: discount_to_present_def py_pow_nonzero py_div_def)
  with Cons.IH p show ?case by simp
qed

text \<open>
  Claim C10. For an inflation rate other than \<open>-1\<close> (where the discount factor is zero and
  the division raises, whatever the lengths), \<^verbatim>\<open>inflation_adjust_series\<close> returns a list for
  value and year lists of any lengths, equal or not: its length is the smaller of the two
  lengths, each element is the paired value divided by \<open>(1 + inflation_rate)\<close> to the paired
  year count, and the result is the same as on the two inputs cut to that length.
\<close>

theorem inflation_adjust_series_unequal_lengths:
  assumes "1 + inflation_rate \<noteq> 0"
  shows "\<exists>out. inflation_adjust_series values inflation_rate years_list = Inr out
           \<and> length out = min (length values) (length years_list)
           \<and> out = map (\<lambda>(v, yr). v / power_int (1 + inflation_rate) yr) (zip values years_list)
           \<and> inflation_adjust_series
                 (take (length out) values) inflation_rate (take (length out) years_list) = Inr out"
proof -
  let ?n = "min (length values) (length years_list)"
  have z: "zip (take ?n values) (take ?n years_list) = zip values years_list"
    by (simp add: take_zip [symmetric])
  show ?thesis
    unfolding inflation_adjust_series_def discount_pairs_total [OF assms]
    using z by simp
qed

theorem inflation_adjust_series_unequal_lengths_witness:
  "1 + (5 / 100 :: real) \<noteq> 0
   \<and> (\<exists>out. inflation_adjust_series [105, 441, 7] (5 / 100) [1, 2] = Inr out
           \<and> length out = min (length [105, 441, 7 :: real]) (length [1, 2 :: int])
           \<and> out = map (\<lambda>(v, yr). v / power_int (1 + 5 / 100) yr) (zip [105, 441, 7] [1, 2])
           \<and> inflation_adjust_series
                 (take (length out) [105, 441, 7]) (5 / 100) (take (length out) [1, 2]) = Inr out)"
  using inflation_adjust_series_unequal_lengths [of "5 / 100" "[105, 441, 7]" "[1, 2]"] by simp

subsection \<open>Risk inference\<close>

text \<open>
  Claim C2, as amended. For every age, horizon, goal list, monthly investment and monthly
  income, \<^verbatim>\<open>infer_risk\<close> returns the sum of the four rule contributions: 2 for an age below
  35, 1 for an age from 35 to 50 and 0 above 50; 2 for a horizon of at least 15 years; 1 for a
  savings rate of at least 0.3; 1 when ``Wealth Creation'' or ``Retirement'' is among the goals.
  A score up to 2 is Low, 3 or 4 is Medium, 5 or more is High. The savings rate is \<open>0\<close> for an
  income \<open>\<le> 0\<close> and the investment divided by \<open>max income 1\<close> for an income \<open>> 0\<close>; so for
  every income \<open>> 0\<close> the result is the one the specification's rules give. The boundary
  example gives score 6 and tier High.
\<close>

theorem infer_risk_score_rules:
  "infer_risk age horizon goals monthly_invest income =
     (let score = (if age < 35 then 2 else if 35 \<le> age \<and> age \<le> 50 then 1 else 0)
                + (if 15 \<le> horizon then 2 else 0)
                + (if 0.3 \<le> (if income \<le> 0 then 0 else monthly_invest / max income 1) then 1 else 0)
                + (if ''Wealth Creation'' \<in> set goals \<or> ''Retirement'' \<in> set goals then 1 else 0)
      in (if score \<le> 2 then ''Low'' else if 3 \<le> score \<and> score \<le> 4 then ''Medium'' else ''High'',
          score))
   \<and> (0 < income \<longrightarrow>
        infer_risk age horizon goals monthly_invest income
          = classify_spec age horizon goals monthly_invest income)
   \<and> infer_risk 30 20 [''Wealth Creation''] 30000 100000 = (''High'', 6)"
  by (simp add: infer_risk_def classify_spec_def Let_def)

theorem infer_risk_score_rules_witness:
  "(0::real) < 100000
   \<and> infer_risk 30 20 [''Wealth Creation''] 30000 100000
       = classify_spec 30 20 [''Wealth Creation''] 30000 100000
   \<and> infer_risk 30 20 [''Wealth Creation''] 30000 100000 = (''High'', 6)"
proof -
  have pos: "(0::real) < 100000" by simp
  from infer_risk_score_rules [of 30 20 "[''Wealth Creation'']" 30000 100000] pos
  show ?thesis by blast
qed

text \<open>
  The claim as stated applies the specified rules to every income. With the form's default
  values and an income of \<open>0\<close> (which the form allows) the specified savings rate is
  \<open>20000 / max 0 1 \<ge> 0.3\<close> and the specified score is 6; the code returns 5.
\<close>

theorem infer_risk_spec_mismatch_counterexample:
  "classify_spec 30 15 [''Wealth Creation''] 20000 0 = (''High'', 6)
   \<and> infer_risk 30 15 [''Wealth Creation''] 20000 0 = (''High'', 5)"
  by (simp add: infer_risk_def classify_spec_def)

text \<open>
  Claim C3, as amended. For every monthly income \<open>\<le> 0\<close> the guard on line 183 sets the
  savings rate to \<open>0\<close>: the result is the same as with a monthly investment of \<open>0\<close>, and the
  score is the sum of the age, horizon and goal contributions only.
\<close>

theorem infer_risk_nonpositive_income:
  assumes "income \<le> 0"
  shows "infer_risk age horizon goals monthly_invest income
           = infer_risk age horizon goals 0 income
         \<and> snd (infer_risk age horizon goals monthly_invest income)
           = (if age < 35 then 2 else if age \<le> 50 then 1 else 0)
           + (if 15 \<le> horizon then 2 else 0)
           + (if ''Wealth Creation'' \<in> set goals \<or> ''Retirement'' \<in> set goals then 1 else 0)"
  using assms by (simp add: infer_risk_def Let_def)

theorem infer_risk_nonpositive_income_witness:
  "(0::real) \<le> 0
   \<and> infer_risk 30 20 [''Retirement''] 5000 0 = infer_risk 30 20 [''Retirement''] 0 0
   \<and> snd (infer_risk 30 20 [''Retirement''] 5000 0)
       = (if (30::int) < 35 then 2 else if (30::int) \<le> 50 then 1 else 0)
       + (if (15::int) \<le> 20 then 2 else 0)
       + (if ''Wealth Creation'' \<in> set [''Retirement''] \<or> ''Retirement'' \<in> set [''Retirement'']
          then 1 else 0)"
  using infer_risk_nonpositive_income [of 0 30 20 "[''Retirement'']" 5000]
  by (simp add: infer_risk_def)

text \<open>
  The claim as stated divides by \<open>max income 1\<close> also for an income \<open>\<le> 0\<close>: with an income
  of \<open>0\<close> and an investment of \<open>1\<close> that quotient is \<open>1 \<ge> 0.3\<close> and the rule would add 1. The
  code returns score \<open>0\<close> there.
\<close>

theorem infer_risk_zero_income_counterexample:
  "(0.3::real) \<le> 1 / max 0 1 \<and> infer_risk 60 5 [''Other''] 1 0 = (''Low'', 0)"
  by (simp add: infer_risk_def)

subsection \<open>Allocation tables\<close>

text \<open>
  Claim C4. The allocation and the expected annual return of the three risk levels are the
  fixed table: Low is Equity 0.20, Debt 0.65, Gold 0.10, Cash 0.05 with return 0.07; Medium is
  0.55, 0.30, 0.10, 0.05 with 0.11; High is 0.75, 0.15, 0.05, 0.05 with 0.14.
\<close>

theorem allocation_lookup_table:
  "suggest_allocation_from_risk ''Low''
     = [(''Equity'', 0.20), (''Debt'', 0.65), (''Gold'', 0.10), (''Cash'', 0.05)]
   \<and> expected_return_from_risk ''Low'' = Inr 0.07
   \<and> suggest_allocation_from_risk ''Medium''
     = [(''Equity'', 0.55), (''Debt'', 0.30), (''Gold'', 0.10), (''Cash'', 0.05)]
   \<and> expected_return_from_risk ''Medium'' = Inr 0.11
   \<and> suggest_allocation_from_risk ''High''
     = [(''Equity'', 0.75), (''Debt'', 0.15), (''Gold'', 0.05), (''Cash'', 0.05)]
   \<and> expected_return_from_risk ''High'' = Inr 0.14"
  by (simp add: suggest_allocation_from_risk_def expected_return_from_risk_def)

subsection \<open>Normalising an allocation\<close>

lemma normalize_allocation_unfold:
  assumes "coerce_entry raw_alloc default_alloc ''Equity'' = Inr e"
      and "coerce_entry raw_alloc default_alloc ''Debt'' = Inr d"
      and "coerce_entry raw_alloc default_alloc ''Gold'' = Inr g"
      and "coerce_entry raw_alloc default_alloc ''Cash'' = Inr c"
  shows "normalize_allocation raw_alloc default_alloc =
           (if e + d + g + c \<le> 0 then Inr default_alloc
            else Inr (map_of [(''Equity'', Num (e / (e + d + g + c))),
                              (''Debt'', Num (d / (e + d + g + c))),
                              (''Gold'', Num (g / (e + d + g + c))),
                              (''Cash'', Num (c / (e + d + g + c)))]))"
  using assms by (simp add: normalize_allocation_def Let_def)

lemma coerce_entry_present: "raw_alloc k = Some (Num x) \<Longrightarrow> coerce_entry raw_alloc default_alloc k = Inr x"
  by (simp add: coerce_entry_def dict_get_def py_float_def)

lemma coerce_entry_empty:
  "coerce_entry Map.empty default_alloc k = py_float (dict_get default_alloc k (Num 0))"
  by (simp add: coerce_entry_def dict_get_def py_float_def split: option.splits pyval.splits)




text \<open>
  Claim C9, as amended. For every default mapping: a raw mapping that holds all four keys
  with value 0 gives back the default mapping itself; so does every raw mapping whose four
  coerced entries sum to \<open>\<le> 0\<close>. An empty raw mapping is coerced to the default's own four
  entries: the default comes back when they sum to \<open>\<le> 0\<close>, and otherwise the result is those
  entries divided by their sum, which is the default again when the default is exactly the
  four weights and they sum to 1.
\<close>

theorem normalize_allocation_returns_default:
  "(raw_alloc ''Equity'' = Some (Num 0) \<and> raw_alloc ''Debt'' = Some (Num 0)
      \<and> raw_alloc ''Gold'' = Some (Num 0) \<and> raw_alloc ''Cash'' = Some (Num 0)
     \<longrightarrow> normalize_allocation raw_alloc default_alloc = Inr default_alloc)
   \<and> (coerce_entry raw_alloc default_alloc ''Equity'' = Inr e
      \<and> coerce_entry raw_alloc default_alloc ''Debt'' = Inr d
      \<and> coerce_entry raw_alloc default_alloc ''Gold'' = Inr g
      \<and> coerce_entry raw_alloc default_alloc ''Cash'' = Inr c
      \<and> e + d + g + c \<le> 0
     \<longrightarrow> normalize_allocation raw_alloc default_alloc = Inr default_alloc)
   \<and> (py_float (dict_get default_alloc ''Equity'' (Num 0)) = Inr e
      \<and> py_float (dict_get default_alloc ''Debt'' (Num 0)) = Inr d
      \<and> py_float (dict_get default_alloc ''Gold'' (Num 0)) = Inr g
      \<and> py_float (dict_get default_alloc ''Cash'' (Num 0)) = Inr c
     \<longrightarrow> normalize_allocation Map.empty default_alloc
           = (if e + d + g + c \<le> 0 then Inr default_alloc
              else Inr (map_of [(''Equity'', Num (e / (e + d + g + c))),
                                (''Debt'', Num (d / (e + d + g + c))),
                                (''Gold'', Num (g / (e + d + g + c))),
                                (''Cash'', Num (c / (e + d + g + c)))])))
   \<and> (default_alloc = map_of [(''Equity'', Num e), (''Debt'', Num d),
                              (''Gold'', Num g), (''Cash'', Num c)]
      \<and> e + d + g + c = 1
     \<longrightarrow> normalize_allocation Map.empty default_alloc = Inr default_alloc)"
proof (intro conjI impI)
  assume "raw_alloc ''Equity'' = Some (Num 0) \<and> raw_alloc ''Debt'' = Some (Num 0)
      \<and> raw_alloc ''Gold'' = Some (Num 0) \<and> raw_alloc ''Cash'' = Some (Num 0)"
  then have "coerce_entry raw_alloc default_alloc ''Equity'' = Inr 0"
    and "coerce_entry raw_alloc default_alloc ''Debt'' = Inr 0"
    and "coerce_entry raw_alloc default_alloc ''Gold'' = Inr 0"
    and "coerce_entry raw_alloc default_alloc ''Cash'' = Inr 0"
    by (simp_all add: coerce_entry_present)
  from normalize_allocation_unfold [OF this]
  show "normalize_allocation raw_alloc default_alloc = Inr default_alloc" by simp
next
  assume a: "coerce_entry raw_alloc default_alloc ''Equity'' = Inr e
      \<and> coerce_entry raw_alloc default_alloc ''Debt'' = Inr d
      \<and> coerce_entry raw_alloc default_alloc ''Gold'' = Inr g
      \<and> coerce_entry raw_alloc default_alloc ''Cash'' = Inr c
      \<and> e + d + g + c \<le> 0"
  then have "coerce_entry raw_alloc default_alloc ''Equity'' = Inr e"
    and "coerce_entry raw_alloc default_alloc ''Debt'' = Inr d"
    and "coerce_entry raw_alloc default_alloc ''Gold'' = Inr g"
    and "coerce_entry raw_alloc default_alloc ''Cash'' = Inr c"
    by simp_all
  from normalize_allocation_unfold [OF this] a
  show "normalize_allocation raw_alloc default_alloc = Inr default_alloc" by simp
next
  assume "py_float (dict_get default_alloc ''Equity'' (Num 0)) = Inr e
      \<and> py_float (dict_get default_alloc ''Debt'' (Num 0)) = Inr d
      \<and> py_float (dict_get default_alloc ''Gold'' (Num 0)) = Inr g
      \<and> py_float (dict_get default_alloc ''Cash'' (Num 0)) = Inr c"
  then have "coerce_entry Map.empty default_alloc ''Equity'' = Inr e"
    and "coerce_entry Map.empty default_alloc ''Debt'' = Inr d"
    and "coerce_entry Map.empty default_alloc ''Gold'' = Inr g"
    and "coerce_entry Map.empty default_alloc ''Cash'' = Inr c"
    by (simp_all add: coerce_entry_empty)
  from normalize_allocation_unfold [OF this]
  show "normalize_allocation Map.empty default_alloc
           = (if e + d + g + c \<le> 0 then Inr default_alloc
              else Inr (map_of [(''Equity'', Num (e / (e + d + g + c))),
                                (''Debt'', Num (d / (e + d + g + c))),
                                (''Gold'', Num (g / (e + d + g + c))),
                                (''Cash'', Num (c / (e + d + g + c)))]))" .
next
  assume a: "default_alloc = map_of [(''Equity'', Num e), (''Debt'', Num d),
                              (''Gold'', Num g), (''Cash'', Num c)]
      \<and> e + d + g + c = 1"
  then have "coerce_entry Map.empty default_alloc ''Equity'' = Inr e"
    and "coerce_entry Map.empty default_alloc ''Debt'' = Inr d"
    and "coerce_entry Map.empty default_alloc ''Gold'' = Inr g"
    and "coerce_entry Map.empty default_alloc ''Cash'' = Inr c"
    by (simp_all add: coerce_entry_empty dict_get_def py_float_def)
  from normalize_allocation_unfold [OF this] a
  show "normalize_allocation Map.empty default_alloc = Inr default_alloc" by simp
qed

theorem normalize_allocation_returns_default_witness:
  "normalize_allocation
       (map_of [(''Equity'', Num 0), (''Debt'', Num 0), (''Gold'', Num 0), (''Cash'', Num 0)])
       (map_of [(''Equity'', Num 7), (''Silver'', NonNum)])
     = Inr (map_of [(''Equity'', Num 7), (''Silver'', NonNum)])
   \<and> normalize_allocation (map_of [(''Equity'', Num (- 1))]) (map_of [(''Debt'', Num (1 / 2))])
     = Inr (map_of [(''Debt'', Num (1 / 2))])
   \<and> normalize_allocation Map.empty
       (map_of [(''Equity'', Num 55), (''Debt'', Num 30), (''Gold'', Num 10), (''Cash'', Num 5)])
     = Inr (map_of [(''Equity'', Num (55 / 100)), (''Debt'', Num (30 / 100)),
                    (''Gold'', Num (10 / 100)), (''Cash'', Num (5 / 100))])
   \<and> normalize_allocation Map.empty
       (map_of [(''Equity'', Num (1 / 5)), (''Debt'', Num (13 / 20)),
                (''Gold'', Num (1 / 10)), (''Cash'', Num (1 / 20))])
     = Inr (map_of [(''Equity'', Num (1 / 5)), (''Debt'', Num (13 / 20)),
                    (''Gold'', Num (1 / 10)), (''Cash'', Num (1 / 20))])"
proof (intro conjI)
  let ?raw = "map_of [(''Equity'', Num 0), (''Debt'', Num 0), (''Gold'', Num 0), (''Cash'', Num 0)]"
  let ?dflt = "map_of [(''Equity'', Num 7), (''Silver'', NonNum)]"
  show "normalize_allocation ?raw ?dflt = Inr ?dflt"
    using normalize_allocation_returns_default [of ?raw ?dflt 0 0 0 0] by simp
next
  let ?raw = "map_of [(''Equity'', Num (- 1))]"
  let ?dflt = "map_of [(''Debt'', Num (1 / 2))]"
  show "normalize_allocation ?raw ?dflt = Inr ?dflt"
    using normalize_allocation_returns_default [of ?raw ?dflt "- 1" "1 / 2" 0 0]
    by (simp add: coerce_entry_def dict_get_def py_float_def)
next
  let ?dflt = "map_of [(''Equity'', Num 55), (''Debt'', Num 30), (''Gold'', Num 10), (''Cash'', Num 5)]"
  show "normalize_allocation Map.empty ?dflt
     = Inr (map_of [(''Equity'', Num (55 / 100)), (''Debt'', Num (30 / 100)),
                    (''Gold'', Num (10 / 100)), (''Cash'', Num (5 / 100))])"
    using normalize_allocation_returns_default [of Map.empty ?dflt 55 30 10 5]
    by (simp add: dict_get_def py_float_def)
next
  let ?dflt = "map_of [(''Equity'', Num (1 / 5)), (''Debt'', Num (13 / 20)),
                (''Gold'', Num (1 / 10)), (''Cash'', Num (1 / 20))]"
  show "normalize_allocation Map.empty ?dflt = Inr ?dflt"
    using normalize_allocation_returns_default [of Map.empty ?dflt "1 / 5" "13 / 20" "1 / 10" "1 / 20"]
    by simp
qed

text \<open>
  An empty raw mapping does not return every default unchanged: a default written in per cent
  (55, 30, 10, 5) comes back rescaled to fractions.
\<close>

theorem normalize_empty_raw_counterexample:
  "normalize_allocation Map.empty
       (map_of [(''Equity'', Num 55), (''Debt'', Num 30), (''Gold'', Num 10), (''Cash'', Num 5)])
     = Inr (map_of [(''Equity'', Num 0.55), (''Debt'', Num 0.30),
                    (''Gold'', Num 0.10), (''Cash'', Num 0.05)])
   \<and> normalize_allocation Map.empty
       (map_of [(''Equity'', Num 55), (''Debt'', Num 30), (''Gold'', Num 10), (''Cash'', Num 5)])
     \<noteq> Inr (map_of [(''Equity'', Num 55), (''Debt'', Num 30),
                     (''Gold'', Num 10), (''Cash'', Num 5)])"
proof -
  let ?dflt = "map_of [(''Equity'', Num 55), (''Debt'', Num 30), (''Gold'', Num 10), (''Cash'', Num 5)]"
  let ?res = "map_of [(''Equity'', Num 0.55), (''Debt'', Num 0.30),
                    (''Gold'', Num 0.10), (''Cash'', Num 0.05)]"
  have r: "normalize_allocation Map.empty ?dflt = Inr ?res"
    by (simp add: normalize_allocation_def coerce_entry_def dict_get_def py_float_def)
  have "?res ''Equity'' \<noteq> ?dflt ''Equity''" by simp
  then have "?res \<noteq> ?dflt" by metis
  with r show ?thesis by simp
qed

subsection \<open>A run without the narrator\<close>

text \<open>Without a key, or with two failing attempts, the narrator call returns nothing.\<close>

lemma call_llm_absent:
  assumes "get_openrouter_key env_key secret = None \<or> get_openrouter_key env_key secret = Some []
           \<or> (attempt_fails (post 0) \<and> attempt_fails (post 1))"
  shows "call_llm_with_backoff env_key secret post 2 = None"
proof -
  have loop: "attempt_fails (post 0) \<Longrightarrow> attempt_fails (post 1) \<Longrightarrow> attempt_loop post 0 2 = None"
  proof -
    assume a0: "attempt_fails (post 0)" and a1: "attempt_fails (post 1)"
    have two: "(2::nat) = Suc (Suc 0)" by simp
    from a1 have a1': "attempt_fails (post (Suc 0))" by simp
    show ?thesis
      unfolding two using a0 a1'
      by (auto simp: attempt_fails_def split: http_outcome.splits option.splits)
  qed
  from assms loop show ?thesis
    by (auto simp: call_llm_with_backoff_def split: option.splits)
qed

text \<open>None of the numeric steps of a run raises for an expected return \<open>\<ge> 0\<close> and rates other than \<open>-1\<close>.\<close>

lemma infer_risk_tier:
  "fst (infer_risk age horizon goals monthly_invest income) \<in> {''Low'', ''Medium'', ''High''}"
  by (simp add: infer_risk_def Let_def)

lemma expected_return_of_tier:
  assumes "t \<in> {''Low'', ''Medium'', ''High''}"
  shows "\<exists>r. expected_return_from_risk t = Inr r \<and> 0 \<le> r"
proof -
  from assms consider "t = ''Low''" | "t = ''Medium''" | "t = ''High''" by blast
  then show ?thesis
  proof cases
    case 1
    then show ?thesis
      by (intro exI [of _ "0.07"]) (simp add: expected_return_from_risk_def)
  next
    case 2
    then show ?thesis
      by (intro exI [of _ "0.11"]) (simp add: expected_return_from_risk_def)
  next
    case 3
    then show ?thesis
      by (intro exI [of _ "0.14"]) (simp add: expected_return_from_risk_def)
  qed
qed

lemma project_corpus_total:
  assumes "0 \<le> annual_return"
  shows "\<exists>v. project_corpus current_savings monthly_invest annual_return years = Inr v"
proof -
  define rm where "rm = (1 + annual_return) powr (1 / 12) - 1"
  have rate: "annual_to_monthly_rate annual_return = Inr rm"
    using assms by (simp add: annual_to_monthly_rate_def rm_def)
  have "0 < (1 + annual_return) powr (1 / 12)" using assms by simp
  then have nz: "1 + rm \<noteq> 0" by (simp add: rm_def)
  show ?thesis
    unfolding project_corpus_def Let_def rate and_then_Inr
    by (simp add: fv_lump_sum_def fv_annuity_def py_pow_nonzero [OF nz] py_div_def)
qed

lemma discount_to_present_total:
  assumes "1 + inflation_rate \<noteq> 0"
  shows "discount_to_present v inflation_rate yr = Inr (v / power_int (1 + inflation_rate) yr)"
  using assms by (simp add: discount_to_present_def py_pow_nonzero py_div_def)

lemma project_fd_corpus_total:
  assumes "1 + annual_rate \<noteq> 0"
  shows "project_fd_corpus p annual_rate yr = Inr (p * power_int (1 + annual_rate) yr)"
  using assms by (simp add: project_fd_corpus_def py_pow_nonzero)

lemma yearly_balances_total:
  assumes "0 \<le> exp_ret"
  shows "\<exists>bs. yearly_balances current_savings monthly_invest exp_ret horizon = Inr bs
           \<and> length bs = nat horizon"
  using assms by (simp add: yearly_balances_def annual_to_monthly_rate_def year_loop_length)

lemma inflation_adjust_series_total:
  assumes "1 + inflation_rate \<noteq> 0"
  shows "\<exists>out. inflation_adjust_series values inflation_rate years_list = Inr out
           \<and> length out = min (length values) (length years_list)"
  unfolding inflation_adjust_series_def discount_pairs_total [OF assms] by simp

lemma run_with_absent_narrator:
  assumes goals: "in_selected_goals inp \<noteq> []"
    and absent: "get_openrouter_key env_key secret = None
                 \<or> get_openrouter_key env_key secret = Some []
                 \<or> (attempt_fails (post 0) \<and> attempt_fails (post 1))"
    and infl: "1 + in_inflation_rate inp \<noteq> 0"
    and fd: "1 + in_fd_rate inp \<noteq> 0"
  shows "\<exists>res. tab_main_run True inp env_key secret post = Inr (Some res)
           \<and> res_advice res
               = fallback_advice (in_age inp) (in_monthly_invest inp) (in_current_savings inp)
                   (in_horizon inp) (res_inferred_risk res) (res_exp_ret res)
           \<and> (res_inferred_risk res, res_risk_score res)
               = infer_risk (in_age inp) (in_horizon inp) (in_selected_goals inp)
                   (of_int (in_monthly_invest inp)) (of_int (in_income inp))
           \<and> expected_return_from_risk (res_inferred_risk res) = Inr (res_exp_ret res)
           \<and> res_alloc res = suggest_allocation_from_risk (res_inferred_risk res)
           \<and> project_corpus (of_int (in_current_savings inp)) (of_int (in_monthly_invest inp))
                 (res_exp_ret res) (of_int (in_horizon inp)) = Inr (res_corpus_port res)
           \<and> res_years res = [1..in_horizon inp]
           \<and> length (res_balances_nominal res) = nat (in_horizon inp)
           \<and> length (res_balances_real res) = nat (in_horizon inp)"
proof -
  obtain rule_risk risk_score where ir:
    "infer_risk (in_age inp) (in_horizon inp) (in_selected_goals inp)
       (of_int (in_monthly_invest inp)) (of_int (in_income inp)) = (rule_risk, risk_score)"
    by (cases "infer_risk (in_age inp) (in_horizon inp) (in_selected_goals inp)
       (of_int (in_monthly_invest inp)) (of_int (in_income inp))")
  have "rule_risk \<in> {''Low'', ''Medium'', ''High''}"
    using infer_risk_tier [of "in_age inp" "in_horizon inp" "in_selected_goals inp"
       "of_int (in_monthly_invest inp)" "of_int (in_income inp)"] ir by simp
  then obtain exp_ret where er: "expected_return_from_risk rule_risk = Inr exp_ret"
    and pos: "0 \<le> exp_ret"
    using expected_return_of_tier by blast
  have llm: "call_llm_with_backoff env_key secret post 2 = None"
    using absent by (rule call_llm_absent)
  obtain corpus_port where cp:
    "project_corpus (of_int (in_current_savings inp)) (of_int (in_monthly_invest inp))
        exp_ret (of_int (in_horizon inp)) = Inr corpus_port"
    using project_corpus_total [OF pos] by blast
  obtain bs where yb:
    "yearly_balances (of_int (in_current_savings inp)) (of_int (in_monthly_invest inp))
        exp_ret (in_horizon inp) = Inr bs"
    and lbs: "length bs = nat (in_horizon inp)"
    using yearly_balances_total [OF pos] by blast
  obtain rs where ias:
    "inflation_adjust_series bs (in_inflation_rate inp) [1..in_horizon inp] = Inr rs"
    and lrs: "length rs = min (length bs) (length [1..in_horizon inp])"
    using inflation_adjust_series_total [OF infl] by blast
  have lrs': "length rs = nat (in_horizon inp)" using lrs lbs by simp
  show ?thesis
    unfolding tab_main_run_def
    using goals lbs lrs'
    by (simp add: ir er llm cp yb ias Let_def
          project_fd_corpus_total [OF fd] discount_to_present_total [OF infl])
qed

lemma sublist_skip: "sublist xs ys \<Longrightarrow> sublist xs (ps @ ys)"
proof -
  assume "sublist xs ys"
  then obtain a b where "ys = a @ xs @ b" by (auto simp: sublist_def)
  then have "ps @ ys = (ps @ a) @ xs @ b" by simp
  then show ?thesis unfolding sublist_def by blast
qed

lemma fallback_advice_parts:
  "sublist (str_int age) (fallback_advice age mi cs h risk er)"
  "sublist (fmt_comma0 mi) (fallback_advice age mi cs h risk er)"
  "sublist (fmt_comma0 cs) (fallback_advice age mi cs h risk er)"
  "sublist (str_int h) (fallback_advice age mi cs h risk er)"
  "sublist (lower risk) (fallback_advice age mi cs h risk er)"
  "sublist (fmt_1f (er * 100)) (fallback_advice age mi cs h risk er)"
  unfolding fallback_advice_def
  by (intro sublist_append_rightI sublist_skip)+

lemma fallback_advice_nonempty: "fallback_advice age mi cs h risk er \<noteq> []"
  by (simp add: fallback_advice_def)

lemma fmt_comma0_small:
  assumes "0 \<le> x" and "x < 1000"
  shows "fmt_comma0 x = str_int x"
  using assms by (simp add: fmt_comma0_def str_int_def grouped.simps)

lemma digits_30: "digits 30 = ''30''"
  by (simp add: digits.simps digit_char_def)

lemma digits_15: "digits 15 = ''15''"
  by (simp add: digits.simps digit_char_def)

lemma digits_14: "digits 14 = ''14''"
  by (simp add: digits.simps digit_char_def)

lemma digits_20000: "digits 20000 = ''20000''"
  by (simp add: digits.simps digit_char_def)

lemma digits_500: "digits 500 = ''500''"
  by (simp add: digits.simps digit_char_def)

lemma grouped_20000: "grouped 20000 = ''20,000''"
  by (simp add: grouped.simps digits.simps digit_char_def)

lemma grouped_0: "grouped 0 = ''0''"
  by (simp add: grouped.simps digits.simps digit_char_def)

lemma round_half_even_140: "round_half_even 140 = 140"
  by (simp add: round_half_even_def)

lemma fmt_1f_14: "fmt_1f 14 = ''14.0''"
  by (simp add: fmt_1f_def round_half_even_140 digits_14 digit_char_def)

lemma lower_High: "lower ''High'' = ''high''"
  by (simp add: lower_def lower_char_def)

lemma default_form_risk:
  "infer_risk (in_age default_form) (in_horizon default_form) (in_selected_goals default_form)
     (of_int (in_monthly_invest default_form)) (of_int (in_income default_form)) = (''High'', 5)"
  by (simp add: default_form_def infer_risk_def)

lemma default_form_fallback:
  "fallback_advice 30 20000 0 15 ''High'' (14 / 100) =
     ''Based on your age (30), monthly investment of roughly '' @ rupee
     @ ''20,000, current savings of about '' @ rupee
     @ ''0, and a 15-year horizon, this preview assumes a high risk profile with an ''
     @ ''expected CAGR of around 14.0% per year. ''
     @ ''Use this purely as research, not as a guarantee.''"
  unfolding fallback_advice_def str_int_def fmt_comma0_def
  by (simp add: digits_30 digits_15 grouped_20000 grouped_0 fmt_1f_14 lower_High)

lemma default_form_no_plain_numeral:
  "\<not> sublist ''20000''
      (''Based on your age (30), monthly investment of roughly '' @ rupee
       @ ''20,000, current savings of about '' @ rupee
       @ ''0, and a 15-year horizon, this preview assumes a high risk profile with an ''
       @ ''expected CAGR of around 14.0% per year. ''
       @ ''Use this purely as research, not as a guarantee.'')"
  by (simp add: rupee_def sublist_Cons_right)

text \<open>
  Claim C6, as amended. On a submission with at least one goal and with inflation and deposit
  rates other than \<open>-1\<close>, when no key is configured or both attempts of the narrator call
  fail, the run returns a result with all its numbers (tier and score, allocation, expected
  return, the projected corpus, one nominal and one real balance per year), and the advice is
  the fallback sentence: it is not empty and contains the age and the horizon as decimal
  numerals, the monthly investment and the current savings with no decimals and a comma between
  groups of three digits, the tier in lower case and the expected return in per cent with one
  decimal. Below 1000 the grouped form of the monthly investment is its plain numeral.
\<close>

theorem fallback_advice_when_narrator_absent:
  assumes "in_selected_goals inp \<noteq> []"
    and "get_openrouter_key env_key secret = None
         \<or> get_openrouter_key env_key secret = Some []
         \<or> (attempt_fails (post 0) \<and> attempt_fails (post 1))"
    and "1 + in_inflation_rate inp \<noteq> 0"
    and "1 + in_fd_rate inp \<noteq> 0"
  shows "\<exists>res. tab_main_run True inp env_key secret post = Inr (Some res)
           \<and> res_advice res
               = fallback_advice (in_age inp) (in_monthly_invest inp) (in_current_savings inp)
                   (in_horizon inp) (res_inferred_risk res) (res_exp_ret res)
           \<and> res_advice res \<noteq> []
           \<and> sublist (str_int (in_age inp)) (res_advice res)
           \<and> sublist (fmt_comma0 (in_monthly_invest inp)) (res_advice res)
           \<and> sublist (fmt_comma0 (in_current_savings inp)) (res_advice res)
           \<and> sublist (str_int (in_horizon inp)) (res_advice res)
           \<and> sublist (lower (res_inferred_risk res)) (res_advice res)
           \<and> sublist (fmt_1f (res_exp_ret res * 100)) (res_advice res)
           \<and> (0 \<le> in_monthly_invest inp \<and> in_monthly_invest inp < 1000
                \<longrightarrow> sublist (str_int (in_monthly_invest inp)) (res_advice res))
           \<and> (res_inferred_risk res, res_risk_score res)
               = infer_risk (in_age inp) (in_horizon inp) (in_selected_goals inp)
                   (of_int (in_monthly_invest inp)) (of_int (in_income inp))
           \<and> expected_return_from_risk (res_inferred_risk res) = Inr (res_exp_ret res)
           \<and> res_alloc res = suggest_allocation_from_risk (res_inferred_risk res)
           \<and> project_corpus (of_int (in_current_savings inp)) (of_int (in_monthly_invest inp))
                 (res_exp_ret res) (of_int (in_horizon inp)) = Inr (res_corpus_port res)
           \<and> res_years res = [1..in_horizon inp]
           \<and> length (res_balances_nominal res) = nat (in_horizon inp)
           \<and> length (res_balances_real res) = nat (in_horizon inp)"
proof -
  from run_with_absent_narrator [OF assms]
  obtain res where run: "tab_main_run True inp env_key secret post = Inr (Some res)"
    and adv: "res_advice res
               = fallback_advice (in_age inp) (in_monthly_invest inp) (in_current_savings inp)
                   (in_horizon inp) (res_inferred_risk res) (res_exp_ret res)"
    and rest: "(res_inferred_risk res, res_risk_score res)
               = infer_risk (in_age inp) (in_horizon inp) (in_selected_goals inp)
                   (of_int (in_monthly_invest inp)) (of_int (in_income inp))"
      "expected_return_from_risk (res_inferred_risk res) = Inr (res_exp_ret res)"
      "res_alloc res = suggest_allocation_from_risk (res_inferred_risk res)"
      "project_corpus (of_int (in_current_savings inp)) (of_int (in_monthly_invest inp))
                 (res_exp_ret res) (of_int (in_horizon inp)) = Inr (res_corpus_port res)"
      "res_years res = [1..in_horizon inp]"
      "length (res_balances_nominal res) = nat (in_horizon inp)"
      "length (res_balances_real res) = nat (in_horizon inp)"
    by blast
  have small: "0 \<le> in_monthly_invest inp \<and> in_monthly_invest inp < 1000
                \<longrightarrow> sublist (str_int (in_monthly_invest inp)) (res_advice res)"
    unfolding adv using fallback_advice_parts(2) fmt_comma0_small by metis
  show ?thesis
    apply (rule exI [of _ res])
    unfolding adv [symmetric]
    using run adv rest small
    by (simp add: adv fallback_advice_parts fallback_advice_nonempty)
qed

theorem fallback_advice_when_narrator_absent_witness:
  "in_selected_goals default_form \<noteq> []
   \<and> get_openrouter_key None None = None
   \<and> 1 + in_inflation_rate default_form \<noteq> 0
   \<and> 1 + in_fd_rate default_form \<noteq> 0
   \<and> (\<exists>res. tab_main_run True default_form None None (\<lambda>attempt. Raised) = Inr (Some res)
          \<and> res_advice res \<noteq> []
          \<and> sublist (str_int 30) (res_advice res)
          \<and> sublist (fmt_comma0 20000) (res_advice res)
          \<and> sublist (str_int 15) (res_advice res)
          \<and> length (res_balances_nominal res) = 15)
   \<and> get_openrouter_key (Some ''key'') None = Some ''key''
   \<and> attempt_fails Raised
   \<and> attempt_fails (Response 503 None)
   \<and> (\<exists>res. tab_main_run True (default_form \<lparr> in_monthly_invest := 500 \<rparr>) (Some ''key'') None
               (\<lambda>attempt. if attempt = 0 then Raised else Response 503 None) = Inr (Some res)
          \<and> res_advice res \<noteq> []
          \<and> sublist (str_int 500) (res_advice res))"
proof -
  have g: "in_selected_goals default_form \<noteq> []"
    and i: "1 + in_inflation_rate default_form \<noteq> 0"
    and f: "1 + in_fd_rate default_form \<noteq> 0"
    by (simp_all add: default_form_def)
  have k: "get_openrouter_key None None = None"
    by (simp add: get_openrouter_key_def)
  then have a1: "get_openrouter_key None None = None
         \<or> get_openrouter_key None None = Some []
         \<or> (attempt_fails ((\<lambda>attempt. Raised) 0) \<and> attempt_fails ((\<lambda>attempt. Raised) 1))"
    by simp
  have first: "\<exists>res. tab_main_run True default_form None None (\<lambda>attempt. Raised) = Inr (Some res)
          \<and> res_advice res \<noteq> []
          \<and> sublist (str_int 30) (res_advice res)
          \<and> sublist (fmt_comma0 20000) (res_advice res)
          \<and> sublist (str_int 15) (res_advice res)
          \<and> length (res_balances_nominal res) = 15"
    using fallback_advice_when_narrator_absent [OF g a1 i f]
    by (auto simp: default_form_def)
  let ?inp = "default_form \<lparr> in_monthly_invest := 500 \<rparr>"
  let ?post = "\<lambda>attempt::nat. if attempt = 0 then Raised else Response 503 None"
  have g2: "in_selected_goals ?inp \<noteq> []"
    and i2: "1 + in_inflation_rate ?inp \<noteq> 0"
    and f2: "1 + in_fd_rate ?inp \<noteq> 0"
    by (simp_all add: default_form_def)
  have k2: "get_openrouter_key (Some ''key'') None = Some ''key''"
    by (simp add: get_openrouter_key_def)
  have r: "attempt_fails Raised" and n: "attempt_fails (Response 503 None)"
    by (simp_all add: attempt_fails_def)
  then have a2: "get_openrouter_key (Some ''key'') None = None
         \<or> get_openrouter_key (Some ''key'') None = Some []
         \<or> (attempt_fails (?post 0) \<and> attempt_fails (?post 1))"
    by simp
  have second: "\<exists>res. tab_main_run True ?inp (Some ''key'') None ?post = Inr (Some res)
          \<and> res_advice res \<noteq> []
          \<and> sublist (str_int 500) (res_advice res)"
    using fallback_advice_when_narrator_absent [OF g2 a2 i2 f2]
    by (auto simp: default_form_def)
  from g k i f first k2 r n second show ?thesis by blast
qed

text \<open>
  The monthly investment is not in the text verbatim: with the form's default values and no
  key the note reads ``20,000'', and the numeral 20000 occurs nowhere in it.
\<close>

theorem fallback_advice_grouping_counterexample:
  "in_monthly_invest default_form = 20000
   \<and> str_int 20000 = ''20000''
   \<and> (case tab_main_run True default_form None None (\<lambda>attempt. Raised) of
        Inr (Some res) \<Rightarrow>
          res_advice res =
            ''Based on your age (30), monthly investment of roughly '' @ rupee
            @ ''20,000, current savings of about '' @ rupee
            @ ''0, and a 15-year horizon, this preview assumes a high risk profile with an ''
            @ ''expected CAGR of around 14.0% per year. ''
            @ ''Use this purely as research, not as a guarantee.''
          \<and> \<not> sublist ''20000'' (res_advice res)
      | _ \<Rightarrow> False)"
proof -
  have g: "in_selected_goals default_form \<noteq> []"
    and i: "1 + in_inflation_rate default_form \<noteq> 0"
    and f: "1 + in_fd_rate default_form \<noteq> 0"
    by (simp_all add: default_form_def)
  have a: "get_openrouter_key None None = None
         \<or> get_openrouter_key None None = Some []
         \<or> (attempt_fails ((\<lambda>attempt. Raised) 0) \<and> attempt_fails ((\<lambda>attempt. Raised) 1))"
    by (simp add: get_openrouter_key_def)
  from run_with_absent_narrator [OF g a i f]
  obtain res where run: "tab_main_run True default_form None None (\<lambda>attempt. Raised) = Inr (Some res)"
    and adv: "res_advice res
               = fallback_advice (in_age default_form) (in_monthly_invest default_form)
                   (in_current_savings default_form) (in_horizon default_form)
                   (res_inferred_risk res) (res_exp_ret res)"
    and risk: "(res_inferred_risk res, res_risk_score res)
               = infer_risk (in_age default_form) (in_horizon default_form)
                   (in_selected_goals default_form)
                   (of_int (in_monthly_invest default_form)) (of_int (in_income default_form))"
    and er: "expected_return_from_risk (res_inferred_risk res) = Inr (res_exp_ret res)"
    by blast
  from risk have tier: "res_inferred_risk res = ''High''"
    unfolding default_form_risk by simp
  with er have ret: "res_exp_ret res = 14 / 100"
    by (simp add: expected_return_from_risk_def)
  have advice_text: "res_advice res = fallback_advice 30 20000 0 15 ''High'' (14 / 100)"
    unfolding adv tier ret by (simp add: default_form_def)
  have mi: "in_monthly_invest default_form = 20000" by (simp add: default_form_def)
  have num: "str_int 20000 = ''20000''" by (simp add: str_int_def digits_20000)
  show ?thesis
    unfolding run using mi num advice_text default_form_fallback default_form_no_plain_numeral
    by simp
qed

end
